theory Spec2Isabelle
  imports Complex_Main
begin

section \<open>JavaScript values\<close>

text \<open>
  The mock responders of \<^verbatim>\<open>pcsd/public/js/dev/tests-cluster-setup.js\<close> receive a
  request URL, the request payload and two callbacks. Payloads and response bodies are
  plain JavaScript data: \<^verbatim>\<open>undefined\<close>, \<^verbatim>\<open>null\<close>, booleans, numbers, strings,
  arrays and objects with string keys (an association list, first entry of a key wins).
  Numbers are the finite ones; strings are ASCII, so that \<open>length\<close> is the JavaScript
  length.
\<close>

datatype jsval =
    JUndefined
  | JNull
  | JBool bool
  | JNum real
  | JStr string
  | JArr "jsval list"
  | JObj "(string \<times> jsval) list"

datatype error = TypeError | SyntaxError

text \<open>
  The built-ins of the JavaScript runtime that the file calls are parameters of the
  model: \<^verbatim>\<open>JSON.parse\<close> (it converts its argument to a string, then decodes it or
  throws), \<^verbatim>\<open>JSON.stringify\<close>, and the outcome of \<^verbatim>\<open>x < 1\<close> for an operand that
  is a string, or an array that converts to a string without throwing (the string is
  read as a number, then compared).
\<close>

record runtime =
  JSON_parse :: "jsval \<Rightarrow> error + jsval"
  JSON_stringify :: "jsval \<Rightarrow> jsval"
  coerced_lt_1 :: "jsval \<Rightarrow> bool"

text \<open>
  \<^verbatim>\<open>v.k\<close> for the property names the file reads (\<^verbatim>\<open>setup_data\<close>,
  \<^verbatim>\<open>force_flags\<close>, \<^verbatim>\<open>length\<close>): reading a property of \<^verbatim>\<open>undefined\<close> or
  \<^verbatim>\<open>null\<close> throws a TypeError, a missing property reads as \<^verbatim>\<open>undefined\<close>, arrays and
  strings have a \<^verbatim>\<open>length\<close>, numbers and booleans have none of the three.
\<close>

fun get_prop :: "jsval \<Rightarrow> string \<Rightarrow> error + jsval" where
  "get_prop JUndefined k = Inl TypeError"
| "get_prop JNull k = Inl TypeError"
| "get_prop (JBool b) k = Inr JUndefined"
| "get_prop (JNum n) k = Inr JUndefined"
| "get_prop (JStr s) k = Inr (if k = ''length'' then JNum (real (length s)) else JUndefined)"
| "get_prop (JArr xs) k = Inr (if k = ''length'' then JNum (real (length xs)) else JUndefined)"
| "get_prop (JObj kvs) k = Inr (case map_of kvs k of None \<Rightarrow> JUndefined | Some v \<Rightarrow> v)"

text \<open>
  \<^verbatim>\<open>v < 1\<close> converts an operand that is an object or an array to a primitive
  first, and that conversion can throw. For an object it tries \<^verbatim>\<open>valueOf\<close>, which
  gives no primitive (the inherited one returns the object itself, and a property of that
  name in plain data is not a function), and then \<^verbatim>\<open>toString\<close>; an object with a
  property of its own named \<^verbatim>\<open>toString\<close> has no callable \<^verbatim>\<open>toString\<close> and the
  conversion throws a TypeError, while any other object becomes
  \<^verbatim>\<open>"[object Object]"\<close>. An array is joined with commas: \<^verbatim>\<open>undefined\<close> and
  \<^verbatim>\<open>null\<close> elements give the empty string, and every other element is converted to a
  string, which throws for the same objects, also inside nested arrays.
\<close>

fun to_primitive_throws :: "jsval \<Rightarrow> bool" where
  "to_primitive_throws (JObj kvs) = (map_of kvs ''toString'' \<noteq> None)"
| "to_primitive_throws (JArr xs) = list_ex to_primitive_throws xs"
| "to_primitive_throws v = False"

text \<open>
  \<^verbatim>\<open>v < 1\<close>: the operand is converted to a number, then compared; \<^verbatim>\<open>undefined\<close>
  becomes NaN, which compares false, \<^verbatim>\<open>null\<close> becomes 0, \<^verbatim>\<open>true\<close> 1 and
  \<^verbatim>\<open>false\<close> 0. An object that converts becomes \<^verbatim>\<open>"[object Object]"\<close>, which reads
  as NaN.
\<close>

fun lt_1 :: "runtime \<Rightarrow> jsval \<Rightarrow> error + bool" where
  "lt_1 rt JUndefined = Inr False"
| "lt_1 rt JNull = Inr True"
| "lt_1 rt (JBool b) = Inr (\<not> b)"
| "lt_1 rt (JNum n) = Inr (n < 1)"
| "lt_1 rt (JStr s) = Inr (coerced_lt_1 rt (JStr s))"
| "lt_1 rt (JArr xs) =
     (if to_primitive_throws (JArr xs) then Inl TypeError
      else Inr (coerced_lt_1 rt (JArr xs)))"
| "lt_1 rt (JObj kvs) =
     (if to_primitive_throws (JObj kvs) then Inl TypeError else Inr False)"

text \<open>
  The expression \<^verbatim>\<open>JSON.parse(data.setup_data).force_flags.length < 1\<close> of
  \<^verbatim>\<open>clusterSetupForceFail\<close> and \<^verbatim>\<open>clusterSetupForce\<close>, evaluated left to right; the
  first step that throws ends the evaluation.
\<close>

definition force_flags_length_lt_1 :: "runtime \<Rightarrow> jsval \<Rightarrow> error + bool" where
  "force_flags_length_lt_1 rt data =
     (case get_prop data ''setup_data'' of
        Inl e \<Rightarrow> Inl e
      | Inr setup_data \<Rightarrow>
          (case JSON_parse rt setup_data of
             Inl e \<Rightarrow> Inl e
           | Inr parsed \<Rightarrow>
               (case get_prop parsed ''force_flags'' of
                  Inl e \<Rightarrow> Inl e
                | Inr force_flags \<Rightarrow>
                    (case get_prop force_flags ''length'' of
                       Inl e \<Rightarrow> Inl e
                     | Inr len \<Rightarrow> lt_1 rt len))))"

section \<open>Fixtures\<close>

text \<open>
  The response fixtures \<^verbatim>\<open>dev.fixture.success\<close>, \<^verbatim>\<open>dev.fixture.libError\<close>,
  \<^verbatim>\<open>dev.fixture.libErrorUnforcibleLarge\<close> and \<^verbatim>\<open>dev.fixture.libException\<close> are
  defined outside this file; the responders take them as a parameter.
  \<^verbatim>\<open>libError\<close> is a function of one boolean.
\<close>

record fixture =
  fixture_success :: jsval
  libError :: "bool \<Rightarrow> jsval"
  libErrorUnforcibleLarge :: jsval
  libException :: jsval

section \<open>Callbacks and responders\<close>

text \<open>
  A callback is called with a list of arguments, may change the state of the page and
  returns a value or throws. A responder
  \<^verbatim>\<open>function(url, data, success, fail)\<close> is an action of the same kind.
\<close>

type_synonym 's action = "'s \<Rightarrow> (error + jsval) \<times> 's"
type_synonym 's callback = "jsval list \<Rightarrow> 's action"
type_synonym 's responder = "string \<Rightarrow> jsval \<Rightarrow> 's callback \<Rightarrow> 's callback \<Rightarrow> 's action"

definition js_return :: "jsval \<Rightarrow> 's action" where
  "js_return v s = (Inr v, s)"

definition js_throw :: "error \<Rightarrow> 's action" where
  "js_throw e s = (Inl e, s)"

definition successPath :: "runtime \<Rightarrow> fixture \<Rightarrow> 's responder" where
  "successPath rt fx url data success fail =
     (if url = ''/manage/check_auth_against_nodes'' then
        success [JSON_stringify rt (JObj [
          (''dave8'', JStr ''Online''),
          (''kryten8'', JStr ''Online''),
          (''holly8'', JStr ''Online'')])]
      else if url = ''/manage/send-known-hosts-to-node'' then success [JStr ''success'']
      else if url = ''/manage/cluster-setup'' then
        success [JSON_stringify rt (fixture_success fx)]
      else if url = ''/manage/remember-cluster'' then success []
      else js_return JUndefined)"

definition checkAuth500 :: "runtime \<Rightarrow> fixture \<Rightarrow> 's responder" where
  "checkAuth500 rt fx url data success fail =
     (if url = ''/manage/check_auth_against_nodes'' then
        fail [JNum 500, JStr ''Somethig is wrong'']
      else if url = ''/manage/send-known-hosts-to-node'' then success [JStr ''success'']
      else js_return JUndefined)"

definition checkAuthFails :: "runtime \<Rightarrow> fixture \<Rightarrow> 's responder" where
  "checkAuthFails rt fx url data success fail =
     (if url = ''/manage/check_auth_against_nodes'' then fail []
      else js_return JUndefined)"

definition checkAuthNodesNotAuth :: "runtime \<Rightarrow> fixture \<Rightarrow> 's responder" where
  "checkAuthNodesNotAuth rt fx url data success fail =
     (if url = ''/manage/check_auth_against_nodes'' then
        success [JSON_stringify rt (JObj [
          (''dave8'', JStr ''Online''),
          (''kryten8'', JStr ''Unable to authenticate''),
          (''holly8'', JStr ''Cant connect'')])]
      else js_return JUndefined)"

definition sendKnownHosts403 :: "runtime \<Rightarrow> fixture \<Rightarrow> 's responder" where
  "sendKnownHosts403 rt fx url data success fail =
     (if url = ''/manage/send-known-hosts-to-node'' then
        fail [JNum 403, JStr ''Permission denied.'']
      else successPath rt fx url data success fail)"

definition sendKnownHostsFail :: "runtime \<Rightarrow> fixture \<Rightarrow> 's responder" where
  "sendKnownHostsFail rt fx url data success fail =
     (if url = ''/manage/send-known-hosts-to-node'' then success [JStr ''error'']
      else successPath rt fx url data success fail)"

definition sendKnownHostsUnsupported :: "runtime \<Rightarrow> fixture \<Rightarrow> 's responder" where
  "sendKnownHostsUnsupported rt fx url data success fail =
     (if url = ''/manage/send-known-hosts-to-node'' then success [JStr ''not_supported'']
      else successPath rt fx url data success fail)"

definition sendKnownHostsUnknownFail :: "runtime \<Rightarrow> fixture \<Rightarrow> 's responder" where
  "sendKnownHostsUnknownFail rt fx url data success fail =
     (if url = ''/manage/send-known-hosts-to-node'' then success [JStr ''unknown'']
      else successPath rt fx url data success fail)"

definition clusterSetup403 :: "runtime \<Rightarrow> fixture \<Rightarrow> 's responder" where
  "clusterSetup403 rt fx url data success fail =
     (if url = ''/manage/cluster-setup'' then fail [JNum 403, JStr ''Permission denied.'']
      else successPath rt fx url data success fail)"

definition clusterSetup500 :: "runtime \<Rightarrow> fixture \<Rightarrow> 's responder" where
  "clusterSetup500 rt fx url data success fail =
     (if url = ''/manage/cluster-setup'' then fail [JNum 500, JStr ''Somethig is wrong'']
      else successPath rt fx url data success fail)"

definition clusterSetupUnforcible :: "runtime \<Rightarrow> fixture \<Rightarrow> 's responder" where
  "clusterSetupUnforcible rt fx url data success fail =
     (if url = ''/manage/cluster-setup'' then
        success [JSON_stringify rt (libErrorUnforcibleLarge fx)]
      else successPath rt fx url data success fail)"

definition clusterSetupException :: "runtime \<Rightarrow> fixture \<Rightarrow> 's responder" where
  "clusterSetupException rt fx url data success fail =
     (if url = ''/manage/cluster-setup'' then success [JSON_stringify rt (libException fx)]
      else successPath rt fx url data success fail)"

text \<open>
  The argument of \<^verbatim>\<open>success\<close> is evaluated before the call: when the payload makes
  the expression throw, no callback is called.
\<close>

definition clusterSetupForceFail :: "runtime \<Rightarrow> fixture \<Rightarrow> 's responder" where
  "clusterSetupForceFail rt fx url data success fail =
     (if url = ''/manage/cluster-setup'' then
        (case force_flags_length_lt_1 rt data of
           Inl e \<Rightarrow> js_throw e
         | Inr b \<Rightarrow> success [JSON_stringify rt (libError fx b)])
      else successPath rt fx url data success fail)"

definition clusterSetupForceFailForcible :: "runtime \<Rightarrow> fixture \<Rightarrow> 's responder" where
  "clusterSetupForceFailForcible rt fx url data success fail =
     (if url = ''/manage/cluster-setup'' then
        success [JSON_stringify rt (libError fx True)]
      else successPath rt fx url data success fail)"

text \<open>
  In \<^verbatim>\<open>clusterSetupForce\<close> the case of the setup URL has no \<^verbatim>\<open>return\<close> after its
  \<^verbatim>\<open>if\<close>: when the condition is false, control falls through to \<^verbatim>\<open>default\<close>.
\<close>

definition clusterSetupForce :: "runtime \<Rightarrow> fixture \<Rightarrow> 's responder" where
  "clusterSetupForce rt fx url data success fail =
     (if url = ''/manage/cluster-setup'' then
        (case force_flags_length_lt_1 rt data of
           Inl e \<Rightarrow> js_throw e
         | Inr b \<Rightarrow>
             if b then success [JSON_stringify rt (libError fx True)]
             else successPath rt fx url data success fail)
      else successPath rt fx url data success fail)"

definition rememberFail :: "runtime \<Rightarrow> fixture \<Rightarrow> 's responder" where
  "rememberFail rt fx url data success fail =
     (if url = ''/manage/remember-cluster'' then fail [JNum 500, JStr ''Server error'']
      else successPath rt fx url data success fail)"

text \<open>The object \<^verbatim>\<open>testClusterSetup\<close>: scenario name to responder.\<close>

datatype scenario =
    SuccessPath
  | CheckAuth500
  | CheckAuthFails
  | CheckAuthNodesNotAuth
  | SendKnownHosts403
  | SendKnownHostsFail
  | SendKnownHostsUnsupported
  | SendKnownHostsUnknownFail
  | ClusterSetup403
  | ClusterSetup500
  | ClusterSetupUnforcible
  | ClusterSetupException
  | ClusterSetupForceFail
  | ClusterSetupForceFailForcible
  | ClusterSetupForce
  | RememberFail

fun testClusterSetup :: "scenario \<Rightarrow> runtime \<Rightarrow> fixture \<Rightarrow> 's responder" where
  "testClusterSetup SuccessPath = successPath"
| "testClusterSetup CheckAuth500 = checkAuth500"
| "testClusterSetup CheckAuthFails = checkAuthFails"
| "testClusterSetup CheckAuthNodesNotAuth = checkAuthNodesNotAuth"
| "testClusterSetup SendKnownHosts403 = sendKnownHosts403"
| "testClusterSetup SendKnownHostsFail = sendKnownHostsFail"
| "testClusterSetup SendKnownHostsUnsupported = sendKnownHostsUnsupported"
| "testClusterSetup SendKnownHostsUnknownFail = sendKnownHostsUnknownFail"
| "testClusterSetup ClusterSetup403 = clusterSetup403"
| "testClusterSetup ClusterSetup500 = clusterSetup500"
| "testClusterSetup ClusterSetupUnforcible = clusterSetupUnforcible"
| "testClusterSetup ClusterSetupException = clusterSetupException"
| "testClusterSetup ClusterSetupForceFail = clusterSetupForceFail"
| "testClusterSetup ClusterSetupForceFailForcible = clusterSetupForceFailForcible"
| "testClusterSetup ClusterSetupForce = clusterSetupForce"
| "testClusterSetup RememberFail = rememberFail"

text \<open>
  The \<^verbatim>\<open>case\<close> labels of each scenario's \<^verbatim>\<open>switch\<close>, and whether the
  \<^verbatim>\<open>switch\<close> has a \<^verbatim>\<open>default\<close> branch (which delegates to \<^verbatim>\<open>successPath\<close>).
\<close>

fun case_urls :: "scenario \<Rightarrow> string list" where
  "case_urls SuccessPath =
     [''/manage/check_auth_against_nodes'', ''/manage/send-known-hosts-to-node'',
      ''/manage/cluster-setup'', ''/manage/remember-cluster'']"
| "case_urls CheckAuth500 =
     [''/manage/check_auth_against_nodes'', ''/manage/send-known-hosts-to-node'']"
| "case_urls CheckAuthFails = [''/manage/check_auth_against_nodes'']"
| "case_urls CheckAuthNodesNotAuth = [''/manage/check_auth_against_nodes'']"
| "case_urls SendKnownHosts403 = [''/manage/send-known-hosts-to-node'']"
| "case_urls SendKnownHostsFail = [''/manage/send-known-hosts-to-node'']"
| "case_urls SendKnownHostsUnsupported = [''/manage/send-known-hosts-to-node'']"
| "case_urls SendKnownHostsUnknownFail = [''/manage/send-known-hosts-to-node'']"
| "case_urls ClusterSetup403 = [''/manage/cluster-setup'']"
| "case_urls ClusterSetup500 = [''/manage/cluster-setup'']"
| "case_urls ClusterSetupUnforcible = [''/manage/cluster-setup'']"
| "case_urls ClusterSetupException = [''/manage/cluster-setup'']"
| "case_urls ClusterSetupForceFail = [''/manage/cluster-setup'']"
| "case_urls ClusterSetupForceFailForcible = [''/manage/cluster-setup'']"
| "case_urls ClusterSetupForce = [''/manage/cluster-setup'']"
| "case_urls RememberFail = [''/manage/remember-cluster'']"

fun has_default :: "scenario \<Rightarrow> bool" where
  "has_default SuccessPath = False"
| "has_default CheckAuth500 = False"
| "has_default CheckAuthFails = False"
| "has_default CheckAuthNodesNotAuth = False"
| "has_default sc = True"

text \<open>
  The five request paths of the file: the four of \<^verbatim>\<open>successPath\<close> and the overview
  path of the one-time mock.
\<close>

definition endpoints :: "string list" where
  "endpoints =
     [''/manage/check_auth_against_nodes'', ''/manage/send-known-hosts-to-node'',
      ''/manage/cluster-setup'', ''/manage/remember-cluster'', ''/clusters_overview'']"

subsection \<open>Observing a responder\<close>

text \<open>
  To see which callback a responder calls, and with which arguments, it is run with two
  callbacks that append their call to a log and return \<^verbatim>\<open>undefined\<close>.
\<close>

datatype call = CallSuccess "jsval list" | CallFail "jsval list"

definition record_success :: "call list callback" where
  "record_success args calls = (Inr JUndefined, calls @ [CallSuccess args])"

definition record_fail :: "call list callback" where
  "record_fail args calls = (Inr JUndefined, calls @ [CallFail args])"

definition observe :: "call list responder \<Rightarrow> string \<Rightarrow> jsval \<Rightarrow> (error + jsval) \<times> call list" where
  "observe r url data = r url data record_success record_fail []"


subsection \<open>The globals a responder reads\<close>

text \<open>
  A responder reads the globals \<^verbatim>\<open>dev.fixture\<close> and \<^verbatim>\<open>JSON\<close> when it is called,
  and other code (a callback, for one) can assign to them between two calls. In the
  world below they are part of the state that the callbacks act on;
  \<^verbatim>\<open>testClusterSetup.successPath\<close> stays bound as in the file.
\<close>

record 's world =
  dev_fixture :: fixture
  JSON_global :: runtime
  rest :: 's




section \<open>The one-time overview mock and the dialog prefill\<close>

text \<open>
  The state these two functions touch: the flag \<^verbatim>\<open>dev.utils.clusterSetupDialog.wasRun\<close>
  (\<^verbatim>\<open>false\<close> when the file is loaded), the flag \<^verbatim>\<open>dev.flags.cluster_overview_run\<close>
  (compared with \<^verbatim>\<open>undefined\<close>), and what they do to the console, the dialog and the
  form, kept as a list of effects in the order they happen.
\<close>

datatype effect =
    ConsoleGroup string
  | ConsoleLog jsval
  | ConsoleGroupEnd
  | DialogCreate
  | SetVal string string

record page =
  wasRun :: bool
  cluster_overview_run :: jsval
  effects :: "effect list"

definition prefill :: "page \<Rightarrow> page" where
  \<open>prefill p =
     (if wasRun p then p
      else p\<lparr>wasRun := True,
             effects := effects p @
               [DialogCreate,
                SetVal ''input[name^="clustername"]'' ''starbug8'',
                SetVal ''#create_new_cluster input[name="node-1"]'' ''dave8'',
                SetVal ''#create_new_cluster input[name="node-2"]'' ''kryten8'',
                SetVal ''#create_new_cluster input[name="node-3"]'' ''holly8'']\<rparr>)\<close>

text \<open>
  The first argument of \<^verbatim>\<open>dev.patch.ajax_wrapper\<close>: the function from a URL to the
  mocked response, \<^verbatim>\<open>undefined\<close> meaning that there is none. The fixture
  \<^verbatim>\<open>mock.clusters_overview\<close> is defined outside this file and is a parameter. When the
  flag is set, the case of the overview URL falls through to \<^verbatim>\<open>default\<close>.
\<close>

definition mock_url :: "jsval \<Rightarrow> string \<Rightarrow> page \<Rightarrow> jsval \<times> page" where
  "mock_url clusters_overview url p =
     (if url = ''/clusters_overview'' then
        (if cluster_overview_run p = JUndefined then
           (clusters_overview,
            p\<lparr>cluster_overview_run := JBool True,
              effects := effects p @
                [ConsoleGroup ''Wrapping ajax_wrapper'', ConsoleLog (JStr url), ConsoleGroupEnd]\<rparr>)
         else (JUndefined, p))
      else (JUndefined, p))"

text \<open>
  Any sequence of calls of the two functions, in any order; \<^verbatim>\<open>prefill\<close> returns
  \<^verbatim>\<open>undefined\<close>.
\<close>

datatype invocation = MockUrl string | Prefill

fun invoke :: "jsval \<Rightarrow> invocation \<Rightarrow> page \<Rightarrow> jsval \<times> page" where
  "invoke clusters_overview (MockUrl url) p = mock_url clusters_overview url p"
| "invoke clusters_overview Prefill p = (JUndefined, prefill p)"

fun invoke_all :: "jsval \<Rightarrow> invocation list \<Rightarrow> page \<Rightarrow> jsval list \<times> page" where
  "invoke_all clusters_overview [] p = ([], p)"
| "invoke_all clusters_overview (i # invs) p =
     (case invoke clusters_overview i p of
        (r, p') \<Rightarrow>
          (case invoke_all clusters_overview invs p' of
             (rs, p'') \<Rightarrow> (r # rs, p'')))"

fun is_dialog_effect :: "effect \<Rightarrow> bool" where
  "is_dialog_effect DialogCreate = True"
| "is_dialog_effect (SetVal selector v) = True"
| "is_dialog_effect e = False"

definition dialog_effects :: "page \<Rightarrow> effect list" where
  "dialog_effects p = filter is_dialog_effect (effects p)"

definition page_at_load :: page where
  "page_at_load = \<lparr>wasRun = False, cluster_overview_run = JUndefined, effects = []\<rparr>"

section \<open>Sample runtime and fixtures\<close>

text \<open>The payload \<^verbatim>\<open>{setup_data: text}\<close> of a setup request.\<close>

definition payload :: "string \<Rightarrow> jsval" where
  "payload setup_data = JObj [(''setup_data'', JStr setup_data)]"

text \<open>
  Modelled from the spec: the fixtures of \<^verbatim>\<open>dev.fixture\<close> are not part of this file.
  The spec calls them a success fixture, library error objects (forcible or not,
  selected by the argument of \<^verbatim>\<open>libError\<close>) and an exception marker; these sample
  values keep them apart.
\<close>

definition fx_sample :: fixture where
  "fx_sample =
     \<lparr>fixture_success = JObj [(''status'', JStr ''success'')],
      libError = (\<lambda>forcible. JObj [(''status'', JStr ''error''), (''forcible'', JBool forcible)]),
      libErrorUnforcibleLarge = JObj [(''status'', JStr ''error''), (''large'', JBool True)],
      libException = JObj [(''status'', JStr ''exception'')]\<rparr>"

text \<open>
  A runtime for the worked examples. Its \<^verbatim>\<open>JSON.parse\<close> and \<^verbatim>\<open>JSON.stringify\<close>
  are tabulated on the texts and values the examples use, with the results JavaScript
  gives there. Off the table the sample's \<^verbatim>\<open>JSON.parse\<close> throws a SyntaxError,
  which is what JavaScript does for \<^verbatim>\<open>undefined\<close> and for a text that is not JSON,
  and its \<^verbatim>\<open>JSON.stringify\<close> returns \<^verbatim>\<open>undefined\<close>, as JavaScript does for
  \<^verbatim>\<open>undefined\<close>. The empty string and the empty array convert to the number 0.
  The theorems below hold for every runtime; the sample only instantiates them.
\<close>

definition sample_parse :: "jsval \<Rightarrow> error + jsval" where
  \<open>sample_parse v =
     (if v = JStr ''{"force_flags":[]}'' then Inr (JObj [(''force_flags'', JArr [])])
      else if v = JStr ''{"force_flags":["--force"]}'' then
        Inr (JObj [(''force_flags'', JArr [JStr ''--force''])])
      else if v = JStr ''{"force_flags":5}'' then Inr (JObj [(''force_flags'', JNum 5)])
      else if v = JStr ''{"force_flags":true}'' then Inr (JObj [(''force_flags'', JBool True)])
      else if v = JStr ''{"force_flags":{"length":{"toString":1}}}'' then
        Inr (JObj [(''force_flags'', JObj [(''length'', JObj [(''toString'', JNum 1)])])])
      else if v = JStr ''{}'' then Inr (JObj [])
      else if v = JStr ''null'' \<or> v = JNull then Inr JNull
      else Inl SyntaxError)\<close>

definition sample_stringify :: "jsval \<Rightarrow> jsval" where
  \<open>sample_stringify v =
     (if v = JObj [(''status'', JStr ''success'')] then JStr ''{"status":"success"}''
      else if v = JObj [(''status'', JStr ''error''), (''forcible'', JBool True)] then
        JStr ''{"status":"error","forcible":true}''
      else if v = JObj [(''status'', JStr ''error''), (''forcible'', JBool False)] then
        JStr ''{"status":"error","forcible":false}''
      else if v = JObj [(''dave8'', JStr ''Online''), (''kryten8'', JStr ''Online''),
                        (''holly8'', JStr ''Online'')] then
        JStr ''{"dave8":"Online","kryten8":"Online","holly8":"Online"}''
      else JUndefined)\<close>

definition rt_sample :: runtime where
  "rt_sample =
     \<lparr>JSON_parse = sample_parse,
      JSON_stringify = sample_stringify,
      coerced_lt_1 = (\<lambda>v. v = JStr [] \<or> v = JArr [])\<rparr>"

section \<open>Properties of the responders\<close>

lemmas terminal_defs =
  successPath_def checkAuth500_def checkAuthFails_def checkAuthNodesNotAuth_def

lemmas composed_defs =
  sendKnownHosts403_def sendKnownHostsFail_def sendKnownHostsUnsupported_def
  sendKnownHostsUnknownFail_def clusterSetup403_def clusterSetup500_def
  clusterSetupUnforcible_def clusterSetupException_def clusterSetupForceFail_def
  clusterSetupForceFailForcible_def clusterSetupForce_def rememberFail_def

lemmas observe_defs =
  observe_def record_success_def record_fail_def js_return_def js_throw_def

lemma force_flags_array:
  "get_prop data ''setup_data'' = Inr setup_data \<Longrightarrow>
   JSON_parse rt setup_data = Inr parsed \<Longrightarrow>
   get_prop parsed ''force_flags'' = Inr (JArr flags) \<Longrightarrow>
   force_flags_length_lt_1 rt data = Inr (flags = [])"
  by (cases flags) (simp_all add: force_flags_length_lt_1_def)

lemma payload_setup_data: "get_prop (payload text) ''setup_data'' = Inr (JStr text)"
  by (simp add: payload_def)

lemma sample_parse_no_flags:
  \<open>JSON_parse rt_sample (JStr ''{"force_flags":[]}'') = Inr (JObj [(''force_flags'', JArr [])])\<close>
  by (simp add: rt_sample_def sample_parse_def)

lemma sample_parse_force:
  \<open>JSON_parse rt_sample (JStr ''{"force_flags":["--force"]}'') =
     Inr (JObj [(''force_flags'', JArr [JStr ''--force''])])\<close>
  by (simp add: rt_sample_def sample_parse_def)

lemma sample_stringify_fixtures:
  \<open>JSON_stringify rt_sample (libError fx_sample True) =
     JStr ''{"status":"error","forcible":true}''\<close>
  \<open>JSON_stringify rt_sample (libError fx_sample False) =
     JStr ''{"status":"error","forcible":false}''\<close>
  \<open>JSON_stringify rt_sample (fixture_success fx_sample) = JStr ''{"status":"success"}''\<close>
  by (simp_all add: rt_sample_def fx_sample_def sample_stringify_def)

subsection \<open>clusterSetupForceFail\<close>

text \<open>
  C1, as the code has it. On \<^verbatim>\<open>/manage/cluster-setup\<close>, when the payload's
  \<^verbatim>\<open>setup_data\<close> decodes to an object whose \<^verbatim>\<open>force_flags\<close> is an array:
  with an empty array \<^verbatim>\<open>clusterSetupForceFail\<close> calls the success callback with
  \<^verbatim>\<open>JSON.stringify(dev.fixture.libError(true))\<close>, the forcible error fixture, exactly as
  \<^verbatim>\<open>clusterSetupForceFailForcible\<close> does for the same request; with a non-empty array
  it calls the success callback with \<^verbatim>\<open>JSON.stringify(dev.fixture.libError(false))\<close>,
  the non-forcible one.
\<close>

theorem clusterSetupForceFail_selector:
  "get_prop data ''setup_data'' = Inr setup_data \<Longrightarrow>
   JSON_parse rt setup_data = Inr parsed \<Longrightarrow>
   get_prop parsed ''force_flags'' = Inr (JArr flags) \<Longrightarrow>
   clusterSetupForceFailForcible rt fx ''/manage/cluster-setup'' data success fail =
     success [JSON_stringify rt (libError fx True)] \<and>
   clusterSetupForceFail rt fx ''/manage/cluster-setup'' data success fail =
     (if flags = [] then
        clusterSetupForceFailForcible rt fx ''/manage/cluster-setup'' data success fail
      else success [JSON_stringify rt (libError fx False)])"
  by (simp add: clusterSetupForceFail_def clusterSetupForceFailForcible_def force_flags_array)

theorem clusterSetupForceFail_selector_witness:
  \<open>observe (clusterSetupForceFail rt_sample fx_sample) ''/manage/cluster-setup''
     (payload ''{"force_flags":[]}'') =
     (Inr JUndefined, [CallSuccess [JStr ''{"status":"error","forcible":true}'']]) \<and>
   observe (clusterSetupForceFail rt_sample fx_sample) ''/manage/cluster-setup''
     (payload ''{"force_flags":["--force"]}'') =
     (Inr JUndefined, [CallSuccess [JStr ''{"status":"error","forcible":false}'']])\<close>
proof -
  have a3: "get_prop (JObj [(''force_flags'', JArr [])]) ''force_flags'' = Inr (JArr [])"
    by simp
  have b3: "get_prop (JObj [(''force_flags'', JArr [JStr ''--force''])]) ''force_flags'' =
              Inr (JArr [JStr ''--force''])"
    by simp
  from clusterSetupForceFail_selector
         [OF payload_setup_data sample_parse_no_flags a3,
          of fx_sample record_success record_fail]
       clusterSetupForceFail_selector
         [OF payload_setup_data sample_parse_force b3,
          of fx_sample record_success record_fail]
  show ?thesis
    by (simp add: sample_stringify_fixtures observe_def record_success_def)
qed

text \<open>
  The spec's wording of C1 fails: with an empty \<^verbatim>\<open>force_flags\<close> the body is not
  the non-forcible fixture \<^verbatim>\<open>libError(false)\<close>, and with \<^verbatim>\<open>["--force"]\<close> the
  response differs from that of \<^verbatim>\<open>clusterSetupForceFailForcible\<close>.
\<close>

theorem clusterSetupForceFail_selector_counterexample:
  \<open>observe (clusterSetupForceFail rt_sample fx_sample) ''/manage/cluster-setup''
     (payload ''{"force_flags":[]}'') \<noteq>
     (Inr JUndefined, [CallSuccess [JSON_stringify rt_sample (libError fx_sample False)]]) \<and>
   observe (clusterSetupForceFail rt_sample fx_sample) ''/manage/cluster-setup''
     (payload ''{"force_flags":["--force"]}'') \<noteq>
   observe (clusterSetupForceFailForcible rt_sample fx_sample) ''/manage/cluster-setup''
     (payload ''{"force_flags":["--force"]}'')\<close>
  by (simp add: clusterSetupForceFail_def clusterSetupForceFailForcible_def
        force_flags_length_lt_1_def payload_def observe_defs
        rt_sample_def fx_sample_def sample_parse_def sample_stringify_def)

subsection \<open>successPath\<close>

text \<open>
  C2, as the code has it. For every payload, \<^verbatim>\<open>successPath\<close> answers the four setup
  endpoints (check node authentication, distribute trust material, perform cluster setup,
  persist cluster membership) by calling the success callback, once, and never the failure
  callback. On the fifth endpoint, the overview fetch, it has no case: it calls neither
  callback and returns \<^verbatim>\<open>undefined\<close>.
\<close>

theorem successPath_endpoints:
  "\<forall>url \<in> set endpoints.
     if url = ''/clusters_overview'' then
       successPath rt fx url data success fail = js_return JUndefined \<and>
       observe (successPath rt fx) url data = (Inr JUndefined, [])
     else
       (\<exists>args. successPath rt fx url data success fail = success args \<and>
          observe (successPath rt fx) url data = (Inr JUndefined, [CallSuccess args]))"
  by (simp add: endpoints_def successPath_def observe_defs)

theorem successPath_endpoints_witness:
  \<open>''/manage/cluster-setup'' \<in> set endpoints \<and>
   observe (successPath rt_sample fx_sample) ''/manage/cluster-setup'' (JObj []) =
     (Inr JUndefined, [CallSuccess [JStr ''{"status":"success"}'']])\<close>
proof -
  have member: "''/manage/cluster-setup'' \<in> set endpoints"
    by (simp add: endpoints_def)
  from successPath_endpoints [of rt_sample fx_sample "JObj []" record_success record_fail]
  have "\<exists>args. successPath rt_sample fx_sample ''/manage/cluster-setup'' (JObj [])
                  record_success record_fail = record_success args \<and>
                observe (successPath rt_sample fx_sample) ''/manage/cluster-setup'' (JObj []) =
                  (Inr JUndefined, [CallSuccess args])"
    using member by (auto dest!: bspec [where x = "''/manage/cluster-setup''"])
  then obtain args where
    obs: "observe (successPath rt_sample fx_sample) ''/manage/cluster-setup'' (JObj []) =
            (Inr JUndefined, [CallSuccess args])"
    by blast
  have \<open>observe (successPath rt_sample fx_sample) ''/manage/cluster-setup'' (JObj []) =
          (Inr JUndefined, [CallSuccess [JStr ''{"status":"success"}'']])\<close>
    by (simp add: successPath_def observe_defs sample_stringify_fixtures)
  with member obs show ?thesis by simp
qed

text \<open>
  The overview URL is one of the five endpoints, and \<^verbatim>\<open>successPath\<close> returns
  \<^verbatim>\<open>undefined\<close> there without calling a callback.
\<close>

theorem successPath_overview_counterexample:
  "''/clusters_overview'' \<in> set endpoints \<and>
   observe (successPath rt_sample fx_sample) ''/clusters_overview'' (JObj []) =
     (Inr JUndefined, [])"
  by (simp add: endpoints_def successPath_def observe_defs)

subsection \<open>Every scenario\<close>

text \<open>
  C3, as the code has it. For every scenario of \<^verbatim>\<open>testClusterSetup\<close>, every URL and
  every payload, one invocation either calls exactly one of the two callbacks, exactly
  once, or calls neither and returns \<^verbatim>\<open>undefined\<close>, or, for
  \<^verbatim>\<open>clusterSetupForceFail\<close> and \<^verbatim>\<open>clusterSetupForce\<close> on
  \<^verbatim>\<open>/manage/cluster-setup\<close> with a payload on which the expression
  \<^verbatim>\<open>JSON.parse(data.setup_data).force_flags.length < 1\<close> throws (in reading a
  property, in the decoding or in the comparison), calls neither and throws that
  exception. It never calls both callbacks and never calls one twice.
\<close>

theorem scenario_callbacks:
  "(case observe (testClusterSetup sc rt fx) url data of
      (r, calls) \<Rightarrow>
        (r = Inr JUndefined \<and>
           (calls = [] \<or> (\<exists>args. calls = [CallSuccess args]) \<or>
            (\<exists>args. calls = [CallFail args]))) \<or>
        (\<exists>e. r = Inl e \<and> calls = [] \<and>
           (sc = ClusterSetupForceFail \<or> sc = ClusterSetupForce) \<and>
           url = ''/manage/cluster-setup'' \<and>
           force_flags_length_lt_1 rt data = Inl e))"
  by (cases sc) (simp_all add: terminal_defs composed_defs observe_defs split: sum.split)

text \<open>
  With a payload that has no \<^verbatim>\<open>setup_data\<close>, \<^verbatim>\<open>clusterSetupForceFail\<close> neither
  calls a callback nor returns \<^verbatim>\<open>undefined\<close>: \<^verbatim>\<open>JSON.parse(undefined)\<close> throws.
  With a \<^verbatim>\<open>force_flags\<close> whose \<^verbatim>\<open>length\<close> is the object \<^verbatim>\<open>{"toString":1}\<close>,
  \<^verbatim>\<open>clusterSetupForce\<close> throws in the comparison.
\<close>

theorem scenario_callbacks_counterexample:
  \<open>observe (testClusterSetup ClusterSetupForceFail rt_sample fx_sample)
     ''/manage/cluster-setup'' (JObj []) = (Inl SyntaxError, []) \<and>
   observe (testClusterSetup ClusterSetupForce rt_sample fx_sample)
     ''/manage/cluster-setup'' (payload ''{"force_flags":{"length":{"toString":1}}}'') =
     (Inl TypeError, [])\<close>
  by (simp add: clusterSetupForceFail_def clusterSetupForce_def force_flags_length_lt_1_def
        payload_def observe_defs rt_sample_def sample_parse_def)

text \<open>
  C4. For every scenario whose \<^verbatim>\<open>switch\<close> has a \<^verbatim>\<open>default\<close> branch and every URL
  that is not its \<^verbatim>\<open>case\<close> label, the scenario does what \<^verbatim>\<open>successPath\<close> does on
  the same URL and payload (the same callback with the same arguments, or none), and the
  invocation returns normally.
\<close>

theorem default_delegates:
  "has_default sc \<Longrightarrow> url \<notin> set (case_urls sc) \<Longrightarrow>
   testClusterSetup sc rt fx url data success fail = successPath rt fx url data success fail \<and>
   observe (testClusterSetup sc rt fx) url data = observe (successPath rt fx) url data \<and>
   fst (observe (testClusterSetup sc rt fx) url data) = Inr JUndefined"
  by (cases sc) (simp_all add: terminal_defs composed_defs observe_defs)

theorem default_delegates_witness:
  \<open>has_default RememberFail \<and> ''/manage/cluster-setup'' \<notin> set (case_urls RememberFail) \<and>
   observe (testClusterSetup RememberFail rt_sample fx_sample) ''/manage/cluster-setup'' (JObj []) =
     (Inr JUndefined, [CallSuccess [JStr ''{"status":"success"}'']])\<close>
proof -
  have h1: "has_default RememberFail" by simp
  have h2: "''/manage/cluster-setup'' \<notin> set (case_urls RememberFail)" by simp
  have \<open>observe (successPath rt_sample fx_sample) ''/manage/cluster-setup'' (JObj []) =
          (Inr JUndefined, [CallSuccess [JStr ''{"status":"success"}'']])\<close>
    by (simp add: successPath_def observe_defs sample_stringify_fixtures)
  with default_delegates [OF h1 h2, of rt_sample fx_sample "JObj []" record_success record_fail] h1 h2
  show ?thesis by simp
qed

text \<open>
  C7. For every scenario, whenever \<^verbatim>\<open>/manage/send-known-hosts-to-node\<close> is answered
  through the success callback, the callback gets one argument, a string that is one of
  \<^verbatim>\<open>"success"\<close>, \<^verbatim>\<open>"error"\<close>, \<^verbatim>\<open>"not_supported"\<close>, \<^verbatim>\<open>"unknown"\<close>.
\<close>

theorem send_known_hosts_body:
  "observe (testClusterSetup sc rt fx) ''/manage/send-known-hosts-to-node'' data = (r, calls) \<Longrightarrow>
   CallSuccess args \<in> set calls \<Longrightarrow>
   args \<in> {[JStr ''success''], [JStr ''error''], [JStr ''not_supported''], [JStr ''unknown'']}"
  by (cases sc) (auto simp: terminal_defs composed_defs observe_defs)

theorem send_known_hosts_body_witness:
  "observe (testClusterSetup SendKnownHostsUnsupported rt_sample fx_sample)
     ''/manage/send-known-hosts-to-node'' JNull =
     (Inr JUndefined, [CallSuccess [JStr ''not_supported'']]) \<and>
   CallSuccess [JStr ''not_supported''] \<in> set [CallSuccess [JStr ''not_supported'']] \<and>
   [JStr ''not_supported''] \<in>
     {[JStr ''success''], [JStr ''error''], [JStr ''not_supported''], [JStr ''unknown'']}"
proof -
  have h1: "observe (testClusterSetup SendKnownHostsUnsupported rt_sample fx_sample)
     ''/manage/send-known-hosts-to-node'' JNull =
     (Inr JUndefined, [CallSuccess [JStr ''not_supported'']])"
    by (simp add: sendKnownHostsUnsupported_def observe_defs)
  have h2: "CallSuccess [JStr ''not_supported''] \<in> set [CallSuccess [JStr ''not_supported'']]"
    by simp
  from send_known_hosts_body [OF h1 h2] h1 h2 show ?thesis by blast
qed

text \<open>
  C8. \<^verbatim>\<open>checkAuthFails\<close> calls the failure callback with no arguments (no status code,
  no message) on \<^verbatim>\<open>/manage/check_auth_against_nodes\<close>; on every other URL it calls
  neither callback and returns \<^verbatim>\<open>undefined\<close>.
\<close>

theorem checkAuthFails_outcome:
  "checkAuthFails rt fx ''/manage/check_auth_against_nodes'' data success fail = fail [] \<and>
   observe (checkAuthFails rt fx) ''/manage/check_auth_against_nodes'' data =
     (Inr JUndefined, [CallFail []]) \<and>
   (url \<noteq> ''/manage/check_auth_against_nodes'' \<longrightarrow>
      checkAuthFails rt fx url data success fail = js_return JUndefined \<and>
      observe (checkAuthFails rt fx) url data = (Inr JUndefined, []))"
  by (simp add: checkAuthFails_def observe_def record_fail_def js_return_def)

theorem checkAuthFails_outcome_witness:
  "''/manage/cluster-setup'' \<noteq> ''/manage/check_auth_against_nodes'' \<and>
   observe (checkAuthFails rt_sample fx_sample) ''/manage/check_auth_against_nodes'' JNull =
     (Inr JUndefined, [CallFail []]) \<and>
   observe (checkAuthFails rt_sample fx_sample) ''/manage/cluster-setup'' JNull =
     (Inr JUndefined, [])"
  using checkAuthFails_outcome
    [where rt = rt_sample and fx = fx_sample and data = JNull
       and success = record_success and fail = record_fail
       and url = "''/manage/cluster-setup''"]
  by simp



subsection \<open>clusterSetupForce\<close>

text \<open>
  C5. \<^verbatim>\<open>clusterSetupForce\<close>, called on \<^verbatim>\<open>/manage/cluster-setup\<close> first with a
  payload whose \<^verbatim>\<open>setup_data\<close> decodes to \<^verbatim>\<open>force_flags: []\<close> and then with one
  whose \<^verbatim>\<open>force_flags\<close> is \<^verbatim>\<open>["--force"]\<close>, first answers with the forcible error
  fixture (through the success callback) and then delegates to \<^verbatim>\<open>successPath\<close>, which
  calls the success callback with the baseline success fixture.
\<close>

theorem clusterSetupForce_resubmission:
  "get_prop data1 ''setup_data'' = Inr setup_data1 \<Longrightarrow>
   JSON_parse rt setup_data1 = Inr parsed1 \<Longrightarrow>
   get_prop parsed1 ''force_flags'' = Inr (JArr []) \<Longrightarrow>
   get_prop data2 ''setup_data'' = Inr setup_data2 \<Longrightarrow>
   JSON_parse rt setup_data2 = Inr parsed2 \<Longrightarrow>
   get_prop parsed2 ''force_flags'' = Inr (JArr [JStr ''--force'']) \<Longrightarrow>
   clusterSetupForce rt fx ''/manage/cluster-setup'' data1 success fail =
     success [JSON_stringify rt (libError fx True)] \<and>
   clusterSetupForce rt fx ''/manage/cluster-setup'' data2 success fail =
     successPath rt fx ''/manage/cluster-setup'' data2 success fail \<and>
   successPath rt fx ''/manage/cluster-setup'' data2 success fail =
     success [JSON_stringify rt (fixture_success fx)] \<and>
   clusterSetupForce rt fx ''/manage/cluster-setup'' data2 record_success record_fail
     (snd (clusterSetupForce rt fx ''/manage/cluster-setup'' data1 record_success record_fail [])) =
     (Inr JUndefined,
      [CallSuccess [JSON_stringify rt (libError fx True)],
       CallSuccess [JSON_stringify rt (fixture_success fx)]])"
  by (simp add: clusterSetupForce_def successPath_def force_flags_array record_success_def)

theorem clusterSetupForce_resubmission_witness:
  \<open>clusterSetupForce rt_sample fx_sample ''/manage/cluster-setup''
     (payload ''{"force_flags":["--force"]}'') record_success record_fail
     (snd (clusterSetupForce rt_sample fx_sample ''/manage/cluster-setup''
             (payload ''{"force_flags":[]}'') record_success record_fail [])) =
     (Inr JUndefined,
      [CallSuccess [JStr ''{"status":"error","forcible":true}''],
       CallSuccess [JStr ''{"status":"success"}'']])\<close>
proof -
  have a3: "get_prop (JObj [(''force_flags'', JArr [])]) ''force_flags'' = Inr (JArr [])"
    by simp
  have b3: "get_prop (JObj [(''force_flags'', JArr [JStr ''--force''])]) ''force_flags'' =
              Inr (JArr [JStr ''--force''])"
    by simp
  from clusterSetupForce_resubmission
         [OF payload_setup_data sample_parse_no_flags a3
             payload_setup_data sample_parse_force b3,
          of fx_sample record_success record_fail]
  show ?thesis
    by (simp add: sample_stringify_fixtures record_success_def)
qed

subsection \<open>The payload precondition of the force-flag responders\<close>

lemma force_flag_throw:
  "force_flags_length_lt_1 rt data = Inl e \<Longrightarrow>
   observe (clusterSetupForceFail rt fx) ''/manage/cluster-setup'' data = (Inl e, []) \<and>
   observe (clusterSetupForce rt fx) ''/manage/cluster-setup'' data = (Inl e, [])"
  by (simp add: clusterSetupForceFail_def clusterSetupForce_def observe_defs)

text \<open>
  C9, as the code has it. If \<^verbatim>\<open>data.setup_data\<close> decodes to an object with a
  \<^verbatim>\<open>force_flags\<close> array, \<^verbatim>\<open>clusterSetupForceFail\<close> and
  \<^verbatim>\<open>clusterSetupForce\<close> do not throw, on any URL. On \<^verbatim>\<open>/manage/cluster-setup\<close>
  they throw, calling neither callback, if the payload is \<^verbatim>\<open>undefined\<close> or
  \<^verbatim>\<open>null\<close>, if \<^verbatim>\<open>JSON.parse\<close> throws on its \<^verbatim>\<open>setup_data\<close> (absent, or not
  valid JSON), or if the decoded value is \<^verbatim>\<open>null\<close> or has no \<^verbatim>\<open>force_flags\<close>
  field (or a \<^verbatim>\<open>null\<close> one). A \<^verbatim>\<open>force_flags\<close> field that is there but has no
  \<^verbatim>\<open>length\<close> does not make them throw: \<^verbatim>\<open>undefined < 1\<close> is false, so
  \<^verbatim>\<open>clusterSetupForceFail\<close> answers with \<^verbatim>\<open>libError(false)\<close> and
  \<^verbatim>\<open>clusterSetupForce\<close> delegates to \<^verbatim>\<open>successPath\<close>.
\<close>

theorem force_flag_payload:
  "(get_prop data ''setup_data'' = Inr setup_data \<and>
    JSON_parse rt setup_data = Inr parsed \<and>
    get_prop parsed ''force_flags'' = Inr (JArr flags) \<longrightarrow>
      fst (observe (clusterSetupForceFail rt fx) url data) = Inr JUndefined \<and>
      fst (observe (clusterSetupForce rt fx) url data) = Inr JUndefined) \<and>
   (data = JUndefined \<or> data = JNull \<longrightarrow>
      observe (clusterSetupForceFail rt fx) ''/manage/cluster-setup'' data =
        (Inl TypeError, []) \<and>
      observe (clusterSetupForce rt fx) ''/manage/cluster-setup'' data =
        (Inl TypeError, [])) \<and>
   (get_prop data ''setup_data'' = Inr setup_data \<and>
    JSON_parse rt setup_data = Inl e \<longrightarrow>
      observe (clusterSetupForceFail rt fx) ''/manage/cluster-setup'' data = (Inl e, []) \<and>
      observe (clusterSetupForce rt fx) ''/manage/cluster-setup'' data = (Inl e, [])) \<and>
   (get_prop data ''setup_data'' = Inr setup_data \<and>
    JSON_parse rt setup_data = Inr parsed \<and>
    (parsed = JUndefined \<or> parsed = JNull \<or>
     get_prop parsed ''force_flags'' = Inr JUndefined \<or>
     get_prop parsed ''force_flags'' = Inr JNull) \<longrightarrow>
      observe (clusterSetupForceFail rt fx) ''/manage/cluster-setup'' data =
        (Inl TypeError, []) \<and>
      observe (clusterSetupForce rt fx) ''/manage/cluster-setup'' data =
        (Inl TypeError, [])) \<and>
   (get_prop data ''setup_data'' = Inr setup_data \<and>
    JSON_parse rt setup_data = Inr parsed \<and>
    get_prop parsed ''force_flags'' = Inr force_flags \<and>
    get_prop force_flags ''length'' = Inr JUndefined \<longrightarrow>
      observe (clusterSetupForceFail rt fx) ''/manage/cluster-setup'' data =
        (Inr JUndefined, [CallSuccess [JSON_stringify rt (libError fx False)]]) \<and>
      clusterSetupForce rt fx ''/manage/cluster-setup'' data success fail =
        successPath rt fx ''/manage/cluster-setup'' data success fail \<and>
      observe (clusterSetupForce rt fx) ''/manage/cluster-setup'' data =
        (Inr JUndefined, [CallSuccess [JSON_stringify rt (fixture_success fx)]]))"
proof (intro conjI impI)
  assume "get_prop data ''setup_data'' = Inr setup_data \<and>
    JSON_parse rt setup_data = Inr parsed \<and>
    get_prop parsed ''force_flags'' = Inr (JArr flags)"
  then have ok: "force_flags_length_lt_1 rt data = Inr (flags = [])"
    by (simp add: force_flags_array)
  show "fst (observe (clusterSetupForceFail rt fx) url data) = Inr JUndefined"
    by (simp add: clusterSetupForceFail_def successPath_def observe_defs ok)
  show "fst (observe (clusterSetupForce rt fx) url data) = Inr JUndefined"
    by (simp add: clusterSetupForce_def successPath_def observe_defs ok)
next
  assume "data = JUndefined \<or> data = JNull"
  then have "force_flags_length_lt_1 rt data = Inl TypeError"
    by (auto simp: force_flags_length_lt_1_def)
  from force_flag_throw [OF this]
  show "observe (clusterSetupForceFail rt fx) ''/manage/cluster-setup'' data =
          (Inl TypeError, [])"
    and "observe (clusterSetupForce rt fx) ''/manage/cluster-setup'' data =
          (Inl TypeError, [])"
    by simp_all
next
  assume "get_prop data ''setup_data'' = Inr setup_data \<and> JSON_parse rt setup_data = Inl e"
  then have "force_flags_length_lt_1 rt data = Inl e"
    by (simp add: force_flags_length_lt_1_def)
  from force_flag_throw [OF this]
  show "observe (clusterSetupForceFail rt fx) ''/manage/cluster-setup'' data = (Inl e, [])"
    and "observe (clusterSetupForce rt fx) ''/manage/cluster-setup'' data = (Inl e, [])"
    by simp_all
next
  assume "get_prop data ''setup_data'' = Inr setup_data \<and>
    JSON_parse rt setup_data = Inr parsed \<and>
    (parsed = JUndefined \<or> parsed = JNull \<or>
     get_prop parsed ''force_flags'' = Inr JUndefined \<or>
     get_prop parsed ''force_flags'' = Inr JNull)"
  then have "force_flags_length_lt_1 rt data = Inl TypeError"
    by (auto simp: force_flags_length_lt_1_def)
  from force_flag_throw [OF this]
  show "observe (clusterSetupForceFail rt fx) ''/manage/cluster-setup'' data =
          (Inl TypeError, [])"
    and "observe (clusterSetupForce rt fx) ''/manage/cluster-setup'' data =
          (Inl TypeError, [])"
    by simp_all
next
  assume "get_prop data ''setup_data'' = Inr setup_data \<and>
    JSON_parse rt setup_data = Inr parsed \<and>
    get_prop parsed ''force_flags'' = Inr force_flags \<and>
    get_prop force_flags ''length'' = Inr JUndefined"
  then have no: "force_flags_length_lt_1 rt data = Inr False"
    by (simp add: force_flags_length_lt_1_def)
  show "observe (clusterSetupForceFail rt fx) ''/manage/cluster-setup'' data =
          (Inr JUndefined, [CallSuccess [JSON_stringify rt (libError fx False)]])"
    by (simp add: clusterSetupForceFail_def observe_defs no)
  show "clusterSetupForce rt fx ''/manage/cluster-setup'' data success fail =
          successPath rt fx ''/manage/cluster-setup'' data success fail"
    by (simp add: clusterSetupForce_def no)
  show "observe (clusterSetupForce rt fx) ''/manage/cluster-setup'' data =
          (Inr JUndefined, [CallSuccess [JSON_stringify rt (fixture_success fx)]])"
    by (simp add: clusterSetupForce_def successPath_def observe_defs no)
qed

theorem force_flag_payload_witness:
  \<open>fst (observe (clusterSetupForceFail rt_sample fx_sample) ''/manage/cluster-setup''
          (payload ''{"force_flags":["--force"]}'')) = Inr JUndefined \<and>
   fst (observe (clusterSetupForce rt_sample fx_sample) ''/manage/cluster-setup''
          (payload ''{"force_flags":["--force"]}'')) = Inr JUndefined \<and>
   observe (clusterSetupForceFail rt_sample fx_sample) ''/manage/cluster-setup'' JNull =
     (Inl TypeError, []) \<and>
   observe (clusterSetupForce rt_sample fx_sample) ''/manage/cluster-setup'' (JObj []) =
     (Inl SyntaxError, []) \<and>
   observe (clusterSetupForceFail rt_sample fx_sample) ''/manage/cluster-setup''
     (payload ''not json'') = (Inl SyntaxError, []) \<and>
   observe (clusterSetupForce rt_sample fx_sample) ''/manage/cluster-setup''
     (payload ''{}'') = (Inl TypeError, []) \<and>
   observe (clusterSetupForceFail rt_sample fx_sample) ''/manage/cluster-setup''
     (payload ''{"force_flags":true}'') =
     (Inr JUndefined, [CallSuccess [JStr ''{"status":"error","forcible":false}'']]) \<and>
   observe (clusterSetupForce rt_sample fx_sample) ''/manage/cluster-setup''
     (payload ''{"force_flags":true}'') =
     (Inr JUndefined, [CallSuccess [JStr ''{"status":"success"}'']])\<close>
proof -
  have p_absent: "JSON_parse rt_sample JUndefined = Inl SyntaxError"
    by (simp add: rt_sample_def sample_parse_def)
  have p_bad: "JSON_parse rt_sample (JStr ''not json'') = Inl SyntaxError"
    by (simp add: rt_sample_def sample_parse_def)
  have p_empty: "JSON_parse rt_sample (JStr ''{}'') = Inr (JObj [])"
    by (simp add: rt_sample_def sample_parse_def)
  have p_true: \<open>JSON_parse rt_sample (JStr ''{"force_flags":true}'') =
                  Inr (JObj [(''force_flags'', JBool True)])\<close>
    by (simp add: rt_sample_def sample_parse_def)
  have array:
    \<open>fst (observe (clusterSetupForceFail rt_sample fx_sample) ''/manage/cluster-setup''
            (payload ''{"force_flags":["--force"]}'')) = Inr JUndefined \<and>
     fst (observe (clusterSetupForce rt_sample fx_sample) ''/manage/cluster-setup''
            (payload ''{"force_flags":["--force"]}'')) = Inr JUndefined\<close>
    using force_flag_payload
         [where rt = rt_sample and fx = fx_sample and url = "''/manage/cluster-setup''"
            and success = record_success and fail = record_fail
            and data = \<open>payload ''{"force_flags":["--force"]}''\<close>
            and setup_data = \<open>JStr ''{"force_flags":["--force"]}''\<close>
            and parsed = \<open>JObj [(''force_flags'', JArr [JStr ''--force''])]\<close> and flags = \<open>[JStr ''--force'']\<close>
            and e = TypeError and force_flags = \<open>JUndefined\<close>]
    by (simp add: payload_setup_data sample_parse_force)
  have no_payload:
    "observe (clusterSetupForceFail rt_sample fx_sample) ''/manage/cluster-setup'' JNull =
       (Inl TypeError, [])"
    using force_flag_payload
         [where rt = rt_sample and fx = fx_sample and url = "''/manage/cluster-setup''"
            and success = record_success and fail = record_fail
            and data = \<open>JNull\<close>
            and setup_data = \<open>JUndefined\<close>
            and parsed = \<open>JUndefined\<close> and flags = \<open>[]\<close>
            and e = TypeError and force_flags = \<open>JUndefined\<close>]
    by simp
  have no_setup_data:
    "observe (clusterSetupForce rt_sample fx_sample) ''/manage/cluster-setup'' (JObj []) =
       (Inl SyntaxError, [])"
    using force_flag_payload
         [where rt = rt_sample and fx = fx_sample and url = "''/manage/cluster-setup''"
            and success = record_success and fail = record_fail
            and data = \<open>JObj []\<close>
            and setup_data = \<open>JUndefined\<close>
            and parsed = \<open>JUndefined\<close> and flags = \<open>[]\<close>
            and e = SyntaxError and force_flags = \<open>JUndefined\<close>]
    by (simp add: p_absent)
  have not_json:
    "observe (clusterSetupForceFail rt_sample fx_sample) ''/manage/cluster-setup''
       (payload ''not json'') = (Inl SyntaxError, [])"
    using force_flag_payload
         [where rt = rt_sample and fx = fx_sample and url = "''/manage/cluster-setup''"
            and success = record_success and fail = record_fail
            and data = \<open>payload ''not json''\<close>
            and setup_data = \<open>JStr ''not json''\<close>
            and parsed = \<open>JUndefined\<close> and flags = \<open>[]\<close>
            and e = SyntaxError and force_flags = \<open>JUndefined\<close>]
    by (simp add: payload_setup_data p_bad)
  have no_force_flags:
    "observe (clusterSetupForce rt_sample fx_sample) ''/manage/cluster-setup''
       (payload ''{}'') = (Inl TypeError, [])"
    using force_flag_payload
         [where rt = rt_sample and fx = fx_sample and url = "''/manage/cluster-setup''"
            and success = record_success and fail = record_fail
            and data = \<open>payload ''{}''\<close>
            and setup_data = \<open>JStr ''{}''\<close>
            and parsed = \<open>JObj []\<close> and flags = \<open>[]\<close>
            and e = TypeError and force_flags = \<open>JUndefined\<close>]
    by (simp add: payload_setup_data p_empty)
  have lengthless:
    \<open>observe (clusterSetupForceFail rt_sample fx_sample) ''/manage/cluster-setup''
       (payload ''{"force_flags":true}'') =
       (Inr JUndefined, [CallSuccess [JStr ''{"status":"error","forcible":false}'']]) \<and>
     observe (clusterSetupForce rt_sample fx_sample) ''/manage/cluster-setup''
       (payload ''{"force_flags":true}'') =
       (Inr JUndefined, [CallSuccess [JStr ''{"status":"success"}'']])\<close>
    using force_flag_payload
         [where rt = rt_sample and fx = fx_sample and url = "''/manage/cluster-setup''"
            and success = record_success and fail = record_fail
            and data = \<open>payload ''{"force_flags":true}''\<close>
            and setup_data = \<open>JStr ''{"force_flags":true}''\<close>
            and parsed = \<open>JObj [(''force_flags'', JBool True)]\<close> and flags = \<open>[]\<close>
            and e = TypeError and force_flags = \<open>JBool True\<close>]
    by (simp add: payload_setup_data p_true sample_stringify_fixtures)
  from array no_payload no_setup_data not_json no_force_flags lengthless
  show ?thesis by simp
qed

text \<open>
  A \<^verbatim>\<open>force_flags\<close> field without a length does not make the responders throw:
  for the number 5, \<^verbatim>\<open>length\<close> reads as \<^verbatim>\<open>undefined\<close>, and
  \<^verbatim>\<open>undefined < 1\<close> is false.
\<close>

theorem force_flag_payload_counterexample:
  \<open>JSON_parse rt_sample (JStr ''{"force_flags":5}'') = Inr (JObj [(''force_flags'', JNum 5)]) \<and>
   get_prop (JNum 5) ''length'' = Inr JUndefined \<and>
   observe (clusterSetupForceFail rt_sample fx_sample) ''/manage/cluster-setup''
     (payload ''{"force_flags":5}'') =
     (Inr JUndefined, [CallSuccess [JStr ''{"status":"error","forcible":false}'']]) \<and>
   observe (clusterSetupForce rt_sample fx_sample) ''/manage/cluster-setup''
     (payload ''{"force_flags":5}'') =
     (Inr JUndefined, [CallSuccess [JStr ''{"status":"success"}'']])\<close>
  by (simp add: clusterSetupForceFail_def clusterSetupForce_def successPath_def
        force_flags_length_lt_1_def payload_def observe_defs
        rt_sample_def fx_sample_def sample_parse_def sample_stringify_def)

section \<open>One-shot initialization\<close>

lemma invoke_all_Cons:
  "invoke_all ov (i # xs) p =
     (fst (invoke ov i p) # fst (invoke_all ov xs (snd (invoke ov i p))),
      snd (invoke_all ov xs (snd (invoke ov i p))))"
  by (simp split: prod.splits)

lemma invoke_all_append:
  "invoke_all ov (xs @ ys) p =
     (fst (invoke_all ov xs p) @ fst (invoke_all ov ys (snd (invoke_all ov xs p))),
      snd (invoke_all ov ys (snd (invoke_all ov xs p))))"
  by (induction xs arbitrary: p) (simp_all add: invoke_all_Cons del: invoke_all.simps(2))

lemma invoke_before_overview:
  "cluster_overview_run p = JUndefined \<Longrightarrow> MockUrl ''/clusters_overview'' \<notin> set xs \<Longrightarrow>
   fst (invoke_all ov xs p) = replicate (length xs) JUndefined \<and>
   cluster_overview_run (snd (invoke_all ov xs p)) = JUndefined"
proof (induction xs arbitrary: p)
  case Nil
  then show ?case by simp
next
  case (Cons i xs)
  have step: "fst (invoke ov i p) = JUndefined \<and>
              cluster_overview_run (snd (invoke ov i p)) = JUndefined"
  proof (cases i)
    case (MockUrl url)
    with Cons.prems show ?thesis by (auto simp: mock_url_def)
  next
    case Prefill
    with Cons.prems show ?thesis by (simp add: prefill_def)
  qed
  from Cons.prems have rest: "MockUrl ''/clusters_overview'' \<notin> set xs" by simp
  from Cons.IH [OF conjunct2 [OF step] rest] step
  show ?case by (simp add: invoke_all_Cons del: invoke_all.simps(2))
qed

lemma invoke_after_overview:
  "cluster_overview_run p \<noteq> JUndefined \<Longrightarrow>
   fst (invoke_all ov xs p) = replicate (length xs) JUndefined"
proof (induction xs arbitrary: p)
  case Nil
  then show ?case by simp
next
  case (Cons i xs)
  have step: "fst (invoke ov i p) = JUndefined \<and>
              cluster_overview_run (snd (invoke ov i p)) \<noteq> JUndefined"
    using Cons.prems by (cases i) (simp_all add: mock_url_def prefill_def)
  from Cons.IH [OF conjunct2 [OF step]] step
  show ?case by (simp add: invoke_all_Cons del: invoke_all.simps(2))
qed

lemma invoke_before_prefill:
  "\<not> wasRun p \<Longrightarrow> Prefill \<notin> set xs \<Longrightarrow>
   \<not> wasRun (snd (invoke_all ov xs p)) \<and>
   dialog_effects (snd (invoke_all ov xs p)) = dialog_effects p"
proof (induction xs arbitrary: p)
  case Nil
  then show ?case by simp
next
  case (Cons i xs)
  from Cons.prems obtain url where i: "i = MockUrl url"
    by (cases i) simp_all
  have step: "\<not> wasRun (snd (invoke ov i p)) \<and>
              dialog_effects (snd (invoke ov i p)) = dialog_effects p"
    using Cons.prems(1) by (simp add: i mock_url_def dialog_effects_def)
  from Cons.prems have rest: "Prefill \<notin> set xs" by simp
  from Cons.IH [OF conjunct1 [OF step] rest] step
  show ?case by (simp add: invoke_all_Cons del: invoke_all.simps(2))
qed

lemma invoke_after_prefill:
  "wasRun p \<Longrightarrow>
   wasRun (snd (invoke_all ov xs p)) \<and>
   dialog_effects (snd (invoke_all ov xs p)) = dialog_effects p"
proof (induction xs arbitrary: p)
  case Nil
  then show ?case by simp
next
  case (Cons i xs)
  have step: "wasRun (snd (invoke ov i p)) \<and>
              dialog_effects (snd (invoke ov i p)) = dialog_effects p"
    using Cons.prems by (cases i) (simp_all add: mock_url_def prefill_def dialog_effects_def)
  from Cons.IH [OF conjunct1 [OF step]] step
  show ?case by (simp add: invoke_all_Cons del: invoke_all.simps(2))
qed

text \<open>
  C6. Take a page on which \<^verbatim>\<open>dev.flags.cluster_overview_run\<close> is still
  \<^verbatim>\<open>undefined\<close> and \<^verbatim>\<open>wasRun\<close> is false, as when the file is loaded, and any
  sequence of calls of the mock and of \<^verbatim>\<open>prefill\<close>. The first call of the mock for
  \<^verbatim>\<open>/clusters_overview\<close> in the sequence returns \<^verbatim>\<open>mock.clusters_overview\<close>, whatever
  was called before it, and every other call in the sequence returns \<^verbatim>\<open>undefined\<close>.
  Nothing touches the dialog before the first invocation of \<^verbatim>\<open>prefill\<close>; that
  invocation creates the dialog and fills the four inputs; whatever is called after it
  leaves the dialog and the inputs as they are, and a further \<^verbatim>\<open>prefill\<close> changes
  nothing at all.
\<close>

theorem one_shot_initialization:
  \<open>(cluster_overview_run p = JUndefined \<and> MockUrl ''/clusters_overview'' \<notin> set earlier \<longrightarrow>
      fst (invoke_all ov (earlier @ MockUrl ''/clusters_overview'' # later) p) =
        replicate (length earlier) JUndefined @ ov # replicate (length later) JUndefined) \<and>
   (\<not> wasRun p \<and> Prefill \<notin> set earlier \<longrightarrow>
      dialog_effects (snd (invoke_all ov earlier p)) = dialog_effects p \<and>
      dialog_effects (snd (invoke_all ov (earlier @ [Prefill]) p)) =
        dialog_effects p @
          [DialogCreate,
           SetVal ''input[name^="clustername"]'' ''starbug8'',
           SetVal ''#create_new_cluster input[name="node-1"]'' ''dave8'',
           SetVal ''#create_new_cluster input[name="node-2"]'' ''kryten8'',
           SetVal ''#create_new_cluster input[name="node-3"]'' ''holly8''] \<and>
      dialog_effects (snd (invoke_all ov (earlier @ Prefill # later) p)) =
        dialog_effects (snd (invoke_all ov (earlier @ [Prefill]) p)) \<and>
      prefill (snd (invoke_all ov (earlier @ Prefill # later) p)) =
        snd (invoke_all ov (earlier @ Prefill # later) p))\<close>
proof (intro conjI impI)
  assume "cluster_overview_run p = JUndefined \<and> MockUrl ''/clusters_overview'' \<notin> set earlier"
  then have before: "fst (invoke_all ov earlier p) = replicate (length earlier) JUndefined"
    and unset: "cluster_overview_run (snd (invoke_all ov earlier p)) = JUndefined"
    using invoke_before_overview [of p earlier ov] by simp_all
  define q where "q = snd (invoke_all ov earlier p)"
  have first: "fst (mock_url ov ''/clusters_overview'' q) = ov"
    and set: "cluster_overview_run (snd (mock_url ov ''/clusters_overview'' q)) \<noteq> JUndefined"
    using unset by (simp_all add: q_def mock_url_def)
  have "fst (invoke_all ov (MockUrl ''/clusters_overview'' # later) q) =
          ov # replicate (length later) JUndefined"
    using first invoke_after_overview [OF set, of ov later]
    by (simp add: invoke_all_Cons del: invoke_all.simps(2))
  with before show
    "fst (invoke_all ov (earlier @ MockUrl ''/clusters_overview'' # later) p) =
       replicate (length earlier) JUndefined @ ov # replicate (length later) JUndefined"
    by (simp add: invoke_all_append q_def)
next
  assume fresh: "\<not> wasRun p \<and> Prefill \<notin> set earlier"
  define q where "q = snd (invoke_all ov earlier p)"
  from fresh have not_run: "\<not> wasRun q"
    and untouched: "dialog_effects q = dialog_effects p"
    using invoke_before_prefill [of p earlier ov] by (simp_all add: q_def)
  from untouched show "dialog_effects (snd (invoke_all ov earlier p)) = dialog_effects p"
    by (simp add: q_def)
  have one: "snd (invoke_all ov (earlier @ [Prefill]) p) = prefill q"
    by (simp add: invoke_all_append q_def)
  have run: "wasRun (prefill q)"
    by (simp add: prefill_def)
  show \<open>dialog_effects (snd (invoke_all ov (earlier @ [Prefill]) p)) =
        dialog_effects p @
          [DialogCreate,
           SetVal ''input[name^="clustername"]'' ''starbug8'',
           SetVal ''#create_new_cluster input[name="node-1"]'' ''dave8'',
           SetVal ''#create_new_cluster input[name="node-2"]'' ''kryten8'',
           SetVal ''#create_new_cluster input[name="node-3"]'' ''holly8'']\<close>
    using not_run untouched by (simp add: one prefill_def dialog_effects_def)
  have all: "snd (invoke_all ov (earlier @ Prefill # later) p) =
               snd (invoke_all ov later (prefill q))"
    by (simp add: invoke_all_append invoke_all_Cons q_def del: invoke_all.simps(2))
  from invoke_after_prefill [OF run, of ov later]
  show "dialog_effects (snd (invoke_all ov (earlier @ Prefill # later) p)) =
          dialog_effects (snd (invoke_all ov (earlier @ [Prefill]) p))"
    by (simp add: all one)
  from invoke_after_prefill [OF run, of ov later]
  show "prefill (snd (invoke_all ov (earlier @ Prefill # later) p)) =
          snd (invoke_all ov (earlier @ Prefill # later) p)"
    by (simp add: all prefill_def)
qed

theorem one_shot_initialization_witness:
  \<open>cluster_overview_run page_at_load = JUndefined \<and> \<not> wasRun page_at_load \<and>
   MockUrl ''/clusters_overview'' \<notin> set [MockUrl ''/manage/cluster-setup'', Prefill] \<and>
   Prefill \<notin> set [MockUrl ''/manage/cluster-setup''] \<and>
   fst (invoke_all (JStr ''overview'')
          [MockUrl ''/manage/cluster-setup'', Prefill, MockUrl ''/clusters_overview'',
           Prefill, MockUrl ''/clusters_overview'']
          page_at_load) =
     [JUndefined, JUndefined, JStr ''overview'', JUndefined, JUndefined] \<and>
   dialog_effects
     (snd (invoke_all (JStr ''overview'')
             [MockUrl ''/manage/cluster-setup'', Prefill, MockUrl ''/clusters_overview'',
              Prefill, MockUrl ''/clusters_overview'']
             page_at_load)) =
     [DialogCreate,
      SetVal ''input[name^="clustername"]'' ''starbug8'',
      SetVal ''#create_new_cluster input[name="node-1"]'' ''dave8'',
      SetVal ''#create_new_cluster input[name="node-2"]'' ''kryten8'',
      SetVal ''#create_new_cluster input[name="node-3"]'' ''holly8'']\<close>
proof -
  have h1: "cluster_overview_run page_at_load = JUndefined"
    and h2: "\<not> wasRun page_at_load"
    and none: "dialog_effects page_at_load = []"
    by (simp_all add: page_at_load_def dialog_effects_def)
  have results:
    "fst (invoke_all (JStr ''overview'')
            ([MockUrl ''/manage/cluster-setup'', Prefill] @
             MockUrl ''/clusters_overview'' # [Prefill, MockUrl ''/clusters_overview''])
            page_at_load) =
       replicate (length [MockUrl ''/manage/cluster-setup'', Prefill]) JUndefined @
       JStr ''overview'' #
       replicate (length [Prefill, MockUrl ''/clusters_overview'']) JUndefined"
    using one_shot_initialization
      [of page_at_load "[MockUrl ''/manage/cluster-setup'', Prefill]" "JStr ''overview''"
          "[Prefill, MockUrl ''/clusters_overview'']"]
      h1
    by simp
  have dialog:
    \<open>dialog_effects
       (snd (invoke_all (JStr ''overview'')
               ([MockUrl ''/manage/cluster-setup''] @
                Prefill # [MockUrl ''/clusters_overview'', Prefill,
                           MockUrl ''/clusters_overview''])
               page_at_load)) =
       dialog_effects page_at_load @
         [DialogCreate,
          SetVal ''input[name^="clustername"]'' ''starbug8'',
          SetVal ''#create_new_cluster input[name="node-1"]'' ''dave8'',
          SetVal ''#create_new_cluster input[name="node-2"]'' ''kryten8'',
          SetVal ''#create_new_cluster input[name="node-3"]'' ''holly8'']\<close>
    using one_shot_initialization
      [of page_at_load "[MockUrl ''/manage/cluster-setup'']" "JStr ''overview''"
          "[MockUrl ''/clusters_overview'', Prefill, MockUrl ''/clusters_overview'']"]
      h2
    by simp
  from results dialog h1 h2 none show ?thesis
    by simp
qed

end
